theory Spec2Isabelle
  imports Main "HOL-Library.Word"
begin

section \<open>Go strings as byte sequences\<close>

text \<open>
  A Go string is a sequence of bytes, here a \<^typ>\<open>string\<close>. The functions of package
  \<open>strings\<close> that \<open>main.go\<close> calls are modelled on bytes, following the package's
  documentation.
\<close>

text \<open>
  \<open>strings.Trim(s, cutset)\<close> removes every leading and trailing code point contained in
  \<open>cutset\<close>. Both call sites pass an ASCII cutset (\<open>"[]"\<close> and \<open>"'"\<close>); an ASCII byte
  never occurs inside a multi-byte UTF-8 sequence, so trimming bytes is exact for them.
\<close>

definition Trim :: "string \<Rightarrow> string \<Rightarrow> string" where
  "Trim s cutset =
     rev (dropWhile (\<lambda>c. c \<in> set cutset) (rev (dropWhile (\<lambda>c. c \<in> set cutset) s)))"

text \<open>
  \<open>strings.Split(s, sep)\<close> for a separator of one byte, which is what both call sites
  pass (\<open>","\<close> and \<open>"."\<close>): the substrings between the separators, one more than there
  are separators, so the empty string splits into one empty substring.
\<close>

fun Split :: "string \<Rightarrow> char \<Rightarrow> string list" where
  "Split [] sep = [[]]"
| "Split (c # s) sep =
     (if c = sep then [] # Split s sep
      else (case Split s sep of
              [] \<Rightarrow> [[c]]
            | item # items \<Rightarrow> (c # item) # items))"

text \<open>
  \<open>strings.TrimSpace\<close> removes leading and trailing white space as Unicode defines it
  (\<open>unicode.IsSpace\<close>). On the UTF-8 bytes these are the six ASCII bytes
  \<open>\t \n \v \f \r\<close> and space, the two-byte encodings of U+0085 and U+00A0, and the
  three-byte encodings of U+1680, U+2000 to U+200A, U+2028, U+2029, U+202F, U+205F
  and U+3000.
\<close>

definition asciiSpace :: "char \<Rightarrow> bool" where
  "asciiSpace c = (c = CHR 0x09 \<or> c = CHR 0x0A \<or> c = CHR 0x0B \<or> c = CHR 0x0C
                   \<or> c = CHR 0x0D \<or> c = CHR 0x20)"

definition space2 :: "char \<Rightarrow> char \<Rightarrow> bool" where
  "space2 a b = (a = CHR 0xC2 \<and> (b = CHR 0x85 \<or> b = CHR 0xA0))"

definition space3 :: "char \<Rightarrow> char \<Rightarrow> char \<Rightarrow> bool" where
  "space3 a b c =
     ((a = CHR 0xE1 \<and> b = CHR 0x9A \<and> c = CHR 0x80)
      \<or> (a = CHR 0xE2 \<and> b = CHR 0x80
          \<and> (((0x80 :: nat) \<le> of_char c \<and> (of_char c :: nat) \<le> 0x8A)
              \<or> c = CHR 0xA8 \<or> c = CHR 0xA9 \<or> c = CHR 0xAF))
      \<or> (a = CHR 0xE2 \<and> b = CHR 0x81 \<and> c = CHR 0x9F)
      \<or> (a = CHR 0xE3 \<and> b = CHR 0x80 \<and> c = CHR 0x80))"

fun trimLeftSpace :: "string \<Rightarrow> string" where
  "trimLeftSpace (a # b # c # s) =
     (if asciiSpace a then trimLeftSpace (b # c # s)
      else if space2 a b then trimLeftSpace (c # s)
      else if space3 a b c then trimLeftSpace s
      else a # b # c # s)"
| "trimLeftSpace [a, b] =
     (if asciiSpace a then trimLeftSpace [b]
      else if space2 a b then []
      else [a, b])"
| "trimLeftSpace [a] = (if asciiSpace a then [] else [a])"
| "trimLeftSpace [] = []"

text \<open>
  From the right the last code point is decoded backwards; on the reversed string the
  same patterns are read in reverse.
\<close>

fun trimLeftSpaceRev :: "string \<Rightarrow> string" where
  "trimLeftSpaceRev (c # b # a # s) =
     (if asciiSpace c then trimLeftSpaceRev (b # a # s)
      else if space2 b c then trimLeftSpaceRev (a # s)
      else if space3 a b c then trimLeftSpaceRev s
      else c # b # a # s)"
| "trimLeftSpaceRev [c, b] =
     (if asciiSpace c then trimLeftSpaceRev [b]
      else if space2 b c then []
      else [c, b])"
| "trimLeftSpaceRev [c] = (if asciiSpace c then [] else [c])"
| "trimLeftSpaceRev [] = []"

definition TrimSpace :: "string \<Rightarrow> string" where
  "TrimSpace s = rev (trimLeftSpaceRev (rev (trimLeftSpace s)))"

text \<open>
  \<open>strings.ToLower\<close> on the ASCII letters. No code point outside ASCII has one of the
  letters of \<open>true\<close> as its lower case, so the comparison with \<open>"true"\<close> that
  \<open>processCSV\<close> makes is decided by the ASCII letters alone.
\<close>

definition lowerByte :: "char \<Rightarrow> char" where
  "lowerByte c =
     (case map_of (zip ''ABCDEFGHIJKLMNOPQRSTUVWXYZ'' ''abcdefghijklmnopqrstuvwxyz'') c of
        Some l \<Rightarrow> l
      | None \<Rightarrow> c)"

definition ToLower :: "string \<Rightarrow> string" where
  "ToLower s = map lowerByte s"

section \<open>parseArrayFromColumn\<close>

text \<open>
  The brackets are trimmed from both ends, the rest is split at the commas, and each
  item has first its quotes trimmed and then its white space.
\<close>

definition parseArrayFromColumn :: "string \<Rightarrow> string list" where
  "parseArrayFromColumn csv =
     (let cleaned = Trim csv ''[]'';
          items = Split cleaned CHR '',''
      in map (\<lambda>item. TrimSpace (Trim item [CHR 0x27])) items)"


section \<open>Data model\<close>

text \<open>
  A \<open>float64\<close> is its IEEE-754 bit pattern; the constant \<open>0.0\<close> is the pattern of zero
  bits. A CSV record is the slice of its fields. The only values of type \<open>any\<close> and
  \<open>time.Time\<close> that the program builds are an empty slice and a nil pointer.
\<close>

type_synonym float64 = "64 word"
type_synonym row = "string list"
type_synonym any = unit
type_synonym Time = int

record Location =
  Type :: string
  Coordinates :: "float64 \<times> float64"

record Place =
  PlaceID :: string
  Address :: string
  Version :: string
  IsAutoCompleteAddress :: bool
  Types :: "string list"
  PlusCode :: string
  City :: string
  Division :: string
  District :: string
  PostalCode :: string
  Sublocality :: string
  LocalArea :: string
  Location :: "Location option"
  Suggestions :: "any list"
  Reviews :: "any list"
  MergedAt :: "Time option"
  IsMerged :: bool

text \<open>
  What stops a run: an \<open>error\<close> value that a function returns, carried as its message,
  or the run-time panic of an index expression, carried as the index and the length.
\<close>

datatype failure = Error string | IndexOutOfRange nat nat

definition index :: "row \<Rightarrow> nat \<Rightarrow> failure + string" where
  "index r i = (if i < length r then Inr (r ! i) else Inl (IndexOutOfRange i (length r)))"

definition andThen :: "failure + 'a \<Rightarrow> ('a \<Rightarrow> failure + 'b) \<Rightarrow> failure + 'b" where
  "andThen m f = (case m of Inl e \<Rightarrow> Inl e | Inr x \<Rightarrow> f x)"

section \<open>The world outside the program\<close>

text \<open>
  \<open>os.WriteFile\<close> either writes the data or fails with an error, leaving the file as
  the operating system left it (untouched, truncated or absent).
\<close>

datatype write_outcome = Written | WriteFailed string "string option"

text \<open>
  The library calls whose results the program branches on are parameters of the model:
  \<open>strconv.ParseFloat\<close> (value and error), \<open>godotenv.Load\<close>, \<open>os.Getenv\<close>,
  \<open>mongo.Connect\<close> (its error, by URI), \<open>os.Open\<close> with \<open>csv.NewReader\<close> (an error, or
  the records that \<open>reader.Read\<close> returns followed by the message of the error that ends
  them, \<open>EOF\<close> at the end of the file), the error of \<open>os.ReadFile\<close> on an existing
  file, and the outcomes of the n-th \<open>InsertMany\<close> and the n-th \<open>os.WriteFile\<close>.
\<close>

record env =
  ParseFloat :: "string \<Rightarrow> float64 \<times> string option"
  LoadDotenv :: "string option"
  Getenv :: "string \<Rightarrow> string"
  Connect :: "string \<Rightarrow> string option"
  Open :: "string \<Rightarrow> string + (row list \<times> string)"
  ReadFile :: "string \<Rightarrow> string option"
  InsertMany :: "nat \<Rightarrow> Place list \<Rightarrow> string option"
  WriteFile :: "nat \<Rightarrow> write_outcome"

text \<open>
  What a run leaves behind: the files by path, the documents passed to each
  \<open>InsertMany\<close> call, the data passed to each \<open>os.WriteFile\<close> call, the lines written
  to standard output and to standard error (the \<open>log\<close> package's lines without their
  time stamp), the lines that goroutines print after a delay, and the number of
  \<open>progressBar.Increment\<close> calls. What the progress bar draws on the terminal is not part
  of the model.
\<close>

record world =
  files :: "string \<rightharpoonup> string"
  calls :: "Place list list"
  writes :: "string list"
  stdout :: "string list"
  stderr :: "string list"
  deferred :: "string list"
  increments :: nat

section \<open>The program\<close>

definition progressFile0 :: string where
  "progressFile0 = ''_progress.txt''"

definition parseFloat :: "(string \<Rightarrow> float64 \<times> string option) \<Rightarrow> string \<Rightarrow> float64" where
  "parseFloat strconvParseFloat val =
     (case strconvParseFloat val of
        (parsedVal, Some err) \<Rightarrow> 0
      | (parsedVal, None) \<Rightarrow> parsedVal)"

definition getLastProcessedPlaceID :: "env \<Rightarrow> string \<Rightarrow> world \<Rightarrow> string + string" where
  "getLastProcessedPlaceID e progressFile w =
     (case files w progressFile of
        None \<Rightarrow> Inr []
      | Some data \<Rightarrow>
          (case ReadFile e progressFile of
             Some err \<Rightarrow> Inl err
           | None \<Rightarrow> Inr (TrimSpace data)))"

definition updateLastProcessedPlaceID :: "env \<Rightarrow> string \<Rightarrow> string \<Rightarrow> world \<Rightarrow> world" where
  "updateLastProcessedPlaceID e progressFile placeID w =
     (case WriteFile e (length (writes w)) of
        Written \<Rightarrow>
          w\<lparr>files := (files w)(progressFile \<mapsto> placeID), writes := writes w @ [placeID]\<rparr>
      | WriteFailed err left \<Rightarrow>
          w\<lparr>files := (files w)(progressFile := left), writes := writes w @ [placeID],
            stderr := stderr w @ [''Error updating progress file: '' @ err]\<rparr>)"

text \<open>
  The composite literal of \<open>processCSV\<close> that builds a \<open>Place\<close> from a record. The
  compiled program evaluates the four function calls of the literal first, in the order
  they are written, each with the index expression that is its argument: \<open>record[3]\<close>
  for \<open>strings.ToLower\<close>, \<open>record[1]\<close> for \<open>parseArrayFromColumn\<close>, \<open>record[10]\<close> and
  \<open>record[9]\<close> for \<open>parseFloat\<close>. The other index expressions follow in the order they
  are written: columns 0, 2, 12, 8, 5, 6, 7, 11, 13 and 14. The first index out of range
  in this order is the one that panics. Column 4 is not read.
\<close>

definition place_of_record :: "(string \<Rightarrow> float64 \<times> string option) \<Rightarrow> row \<Rightarrow> failure + Place" where
  "place_of_record strconvParseFloat r =
     andThen (index r 3) (\<lambda>r3.
     andThen (index r 1) (\<lambda>r1.
     andThen (index r 10) (\<lambda>r10.
     andThen (index r 9) (\<lambda>r9.
     andThen (index r 0) (\<lambda>r0.
     andThen (index r 2) (\<lambda>r2.
     andThen (index r 12) (\<lambda>r12.
     andThen (index r 8) (\<lambda>r8.
     andThen (index r 5) (\<lambda>r5.
     andThen (index r 6) (\<lambda>r6.
     andThen (index r 7) (\<lambda>r7.
     andThen (index r 11) (\<lambda>r11.
     andThen (index r 13) (\<lambda>r13.
     andThen (index r 14) (\<lambda>r14.
       Inr \<lparr>PlaceID = r0,
            Address = r2,
            Version = r12,
            IsAutoCompleteAddress = (ToLower r3 = ''true''),
            Types = parseArrayFromColumn r1,
            PlusCode = r8,
            City = r5,
            Division = r6,
            District = r7,
            PostalCode = r11,
            Sublocality = r13,
            LocalArea = r14,
            Location = Some \<lparr>Type = ''Point'',
                             Coordinates = (parseFloat strconvParseFloat r10,
                                            parseFloat strconvParseFloat r9)\<rparr>,
            Suggestions = [],
            Reviews = [],
            MergedAt = None,
            IsMerged = False\<rparr>))))))))))))))"

text \<open>
  One pass through the body of the \<open>for\<close> loop, for a record that was read without
  error: the resume filter, the mapper, the append to the batch and the flush of a
  full batch. The result is the failure that ends the run, or the locals
  \<open>startProcessing\<close> and \<open>batch\<close> for the next pass.
\<close>

definition iteration ::
  "env \<Rightarrow> string \<Rightarrow> string \<Rightarrow> nat \<Rightarrow> row \<Rightarrow> bool \<Rightarrow> Place list \<Rightarrow> world
     \<Rightarrow> (failure \<times> world) + (bool \<times> Place list \<times> world)" where
  "iteration e progressFile lastProcessedID batchSize r startProcessing batch w =
     (case (if startProcessing then Inr False
            else andThen (index r 0) (\<lambda>r0. Inr (r0 = lastProcessedID))) of
        Inl p \<Rightarrow> Inl (p, w)
      | Inr True \<Rightarrow> Inr (True, batch, w)
      | Inr False \<Rightarrow>
          if \<not> startProcessing then Inr (startProcessing, batch, w)
          else
            (case place_of_record (ParseFloat e) r of
               Inl p \<Rightarrow> Inl (p, w)
             | Inr place \<Rightarrow>
                 (let batch1 = batch @ [place] in
                  if length batch1 \<ge> batchSize then
                    (let w1 = w\<lparr>calls := calls w @ [batch1]\<rparr> in
                     case InsertMany e (length (calls w)) batch1 of
                       Some err \<Rightarrow> Inl (Error err, w1)
                     | None \<Rightarrow>
                         (let w2 = updateLastProcessedPlaceID e progressFile (PlaceID place) w1
                          in Inr (startProcessing, [], w2\<lparr>increments := Suc (increments w2)\<rparr>)))
                  else Inr (startProcessing, batch1, w\<lparr>increments := Suc (increments w)\<rparr>))))"

text \<open>The passes over the records that \<open>reader.Read\<close> returns, until one fails.\<close>

fun steps ::
  "env \<Rightarrow> string \<Rightarrow> string \<Rightarrow> nat \<Rightarrow> row list \<Rightarrow> bool \<Rightarrow> Place list \<Rightarrow> world
     \<Rightarrow> (failure \<times> world) + (bool \<times> Place list \<times> world)" where
  "steps e progressFile lastProcessedID batchSize [] startProcessing batch w =
     Inr (startProcessing, batch, w)"
| "steps e progressFile lastProcessedID batchSize (r # rs) startProcessing batch w =
     (case iteration e progressFile lastProcessedID batchSize r startProcessing batch w of
        Inl f \<Rightarrow> Inl f
      | Inr (startProcessing', batch', w') \<Rightarrow>
          steps e progressFile lastProcessedID batchSize rs startProcessing' batch' w')"

text \<open>The code after the loop: the remaining batch is inserted, if there is one.\<close>

definition insertRemaining ::
  "env \<Rightarrow> string \<Rightarrow> Place list \<Rightarrow> world \<Rightarrow> failure option \<times> world" where
  "insertRemaining e progressFile batch w =
     (if length batch > 0 then
        (let w1 = w\<lparr>calls := calls w @ [batch]\<rparr> in
         case InsertMany e (length (calls w)) batch of
           Some err \<Rightarrow> (Some (Error err), w1)
         | None \<Rightarrow> (None, updateLastProcessedPlaceID e progressFile (PlaceID (last batch)) w1))
      else (None, w))"

text \<open>
  The loop with its two exits: the error of \<open>reader.Read\<close> whose message is \<open>EOF\<close>
  breaks out of it to the code after the loop, any other one is returned.
\<close>

definition readAll ::
  "env \<Rightarrow> string \<Rightarrow> string \<Rightarrow> nat \<Rightarrow> row list \<Rightarrow> string \<Rightarrow> bool \<Rightarrow> Place list \<Rightarrow> world
     \<Rightarrow> failure option \<times> world" where
  "readAll e progressFile lastProcessedID batchSize rs readErr startProcessing batch w =
     (case steps e progressFile lastProcessedID batchSize rs startProcessing batch w of
        Inl (f, w') \<Rightarrow> (Some f, w')
      | Inr (startProcessing', batch', w') \<Rightarrow>
          if readErr = ''EOF''
          then insertRemaining e progressFile batch' (w'\<lparr>deferred := deferred w' @ [''> GOT EOF '']\<rparr>)
          else (Some (Error readErr), w'))"

text \<open>\<open>fmt.Println\<close> of a label and a slice of strings.\<close>

fun joinSpace :: "string list \<Rightarrow> string" where
  "joinSpace [] = []"
| "joinSpace [x] = x"
| "joinSpace (x # y # ys) = x @ '' '' @ joinSpace (y # ys)"

text \<open>
  \<open>processCSV\<close>, with the global \<open>progressFile\<close> as its first argument. The database
  and collection names select the collection that \<open>InsertMany\<close> writes to.
\<close>

definition processCSV ::
  "env \<Rightarrow> string \<Rightarrow> string \<Rightarrow> string \<Rightarrow> string \<Rightarrow> string \<Rightarrow> world \<Rightarrow> failure option \<times> world" where
  "processCSV e progressFile csvFile mongoURI dbName collectionName w =
     (case Connect e mongoURI of
        Some err \<Rightarrow> (Some (Error err), w)
      | None \<Rightarrow>
          (case Open e csvFile of
             Inl err \<Rightarrow> (Some (Error err), w)
           | Inr (recs, readErr) \<Rightarrow>
               (case getLastProcessedPlaceID e progressFile w of
                  Inl err \<Rightarrow> (Some (Error err), w)
                | Inr lastProcessedID \<Rightarrow>
                    (case recs of
                       [] \<Rightarrow> (Some (Error readErr),
                              w\<lparr>stdout := stdout w @ [''Error reading header: '' @ readErr]\<rparr>)
                     | header # rs \<Rightarrow>
                         readAll e progressFile lastProcessedID 1000 rs readErr
                           (lastProcessedID = []) []
                           (w\<lparr>stdout := stdout w @ [''Header: ['' @ joinSpace header @ '']'']\<rparr>)))))"

text \<open>Decimal digits of a number, as the panic message prints them.\<close>

fun Itoa :: "nat \<Rightarrow> string" where
  "Itoa n = (if n < 10 then [char_of (48 + n)] else Itoa (n div 10) @ [char_of (48 + n mod 10)])"

declare Itoa.simps [simp del]

text \<open>
  \<open>main\<close>: the exit code and the world it leaves. \<open>log.Fatalf\<close> exits with code 1, the
  normal return with code 0, and a panic that nobody recovers ends the process with
  code 2 after the run-time system has written it to standard error. The goroutine that
  waits for an interrupt signal is outside the model.
\<close>

text \<open>
  The assignment to the global \<open>progressFile\<close> in \<open>main\<close>: the first of the pieces of
  the CSV file's name between its dots, followed by the initial value of the global.
  \<open>Split\<close> returns at least one piece, so the index expression cannot panic.
\<close>

definition progressFileFor :: "string \<Rightarrow> string" where
  "progressFileFor csvFile = hd (Split csvFile CHR ''.'') @ progressFile0"

definition fatal :: "string \<Rightarrow> world \<Rightarrow> nat \<times> world" where
  "fatal msg w = (1, w\<lparr>stderr := stderr w @ [msg]\<rparr>)"

definition main :: "env \<Rightarrow> world \<Rightarrow> nat \<times> world" where
  "main e w =
     (case LoadDotenv e of
        Some err \<Rightarrow> fatal ''Error loading .env file'' w
      | None \<Rightarrow>
          (let csvFile = Getenv e ''CSV_FILE'' in
           if csvFile = [] then fatal ''CSV_FILE environment variable not set'' w
           else let mongoURI = Getenv e ''MONGO_URI'' in
           if mongoURI = [] then fatal ''MONGO_URI environment variable not set'' w
           else let dbName = Getenv e ''DB_NAME'' in
           if dbName = [] then fatal ''DB_NAME environment variable not set'' w
           else let collectionName = Getenv e ''COLLECTION_NAME'' in
           if collectionName = [] then fatal ''COLLECTION_NAME environment variable not set'' w
           else
             (let progressFile = progressFileFor csvFile in
              case processCSV e progressFile csvFile mongoURI dbName collectionName w of
                (Some (Error err), w') \<Rightarrow> fatal (''Error processing CSV: '' @ err) w'
              | (Some (IndexOutOfRange i n), w') \<Rightarrow>
                  (2, w'\<lparr>stderr := stderr w' @
                       [''panic: runtime error: index out of range ['' @ Itoa i
                        @ ''] with length '' @ Itoa n]\<rparr>)
              | (None, w') \<Rightarrow>
                  (0, w'\<lparr>stdout := stdout w' @ [''CSV data inserted successfully!'']\<rparr>))))"


section \<open>The resume filter, as the specification words it\<close>


section \<open>What a run leaves behind\<close>

text \<open>
  The part of the world that the outcome of \<open>os.WriteFile\<close> cannot reach: everything
  but the files and standard error.
\<close>

definition observable :: "world \<Rightarrow> Place list list \<times> string list \<times> string list \<times> string list \<times> nat" where
  "observable w = (calls w, writes w, stdout w, deferred w, increments w)"

text \<open>
  Two states of the checkpoint relative to the bulk inserts, for the progress file \<open>pf\<close>
  whose content at the start of the run was \<open>start\<close>. In the first every
  \<open>InsertMany\<close> call so far has succeeded and has been followed by a write of the key of
  its last document. In the second the last call has failed with \<open>err\<close> and no write
  has followed it. In both, if no write has failed, the file holds the key of the last
  document of the last successful call, or \<open>start\<close> if there is none.
\<close>

definition checkpointed :: "env \<Rightarrow> string \<Rightarrow> string option \<Rightarrow> world \<Rightarrow> bool" where
  "checkpointed e pf start w \<longleftrightarrow>
     writes w = map (\<lambda>b. PlaceID (last b)) (calls w)
     \<and> (\<forall>i<length (calls w). InsertMany e i (calls w ! i) = None)
     \<and> ((\<forall>n<length (calls w). WriteFile e n = Written) \<longrightarrow>
          files w pf = (if calls w = [] then start else Some (PlaceID (last (last (calls w))))))"


section \<open>Sample inputs\<close>

definition sampleHeader :: row where
  "sampleHeader = [''place_id'', ''types'', ''address'', ''is_autocomplete'', ''country'',
     ''city'', ''division'', ''district'', ''plus_code'', ''lat'', ''lng'', ''postal_code'',
     ''version'', ''sublocality'', ''local_area'']"

definition sampleRow :: "string \<Rightarrow> string \<Rightarrow> row" where
  "sampleRow placeID lat = [placeID, ''['bank']'', ''12 Lake Road'', ''TRUE'', ''Bangladesh'',
     ''Dhaka'', ''Dhaka'', ''Dhaka'', ''7JCP+2X'', lat, ''90.5'', ''1207'', ''v1'', ''Banani'',
     ''Block C'']"

text \<open>
  A stand-in for \<open>strconv.ParseFloat\<close> that knows the two numerals of the samples and
  one numeral beyond the range of a \<open>float64\<close>, for which \<open>strconv.ParseFloat\<close> returns
  infinity together with a range error.
\<close>

definition sampleParseFloat :: "string \<Rightarrow> float64 \<times> string option" where
  "sampleParseFloat s =
     (if s = ''23.75'' then (0x4037C00000000000, None)
      else if s = ''90.5'' then (0x4056A00000000000, None)
      else if s = ''1e400'' then (0x7FF0000000000000, Some ''value out of range'')
      else (0, Some ''invalid syntax''))"

definition sampleEnv :: "row list \<Rightarrow> env" where
  "sampleEnv recs =
     \<lparr>ParseFloat = sampleParseFloat,
      LoadDotenv = None,
      Getenv = (\<lambda>name. if name = ''CSV_FILE'' then ''places.csv''
                        else if name = ''MONGO_URI'' then ''mongodb://localhost''
                        else if name = ''DB_NAME'' then ''geo''
                        else if name = ''COLLECTION_NAME'' then ''places''
                        else []),
      Connect = (\<lambda>uri. None),
      Open = (\<lambda>path. if path = ''places.csv'' then Inr (recs, ''EOF'')
                      else Inl ''no such file or directory''),
      ReadFile = (\<lambda>path. None),
      InsertMany = (\<lambda>n docs. None),
      WriteFile = (\<lambda>n. Written)\<rparr>"

definition sampleWorld :: "(string \<rightharpoonup> string) \<Rightarrow> world" where
  "sampleWorld fs =
     \<lparr>files = fs, calls = [], writes = [], stdout = [], stderr = [], deferred = [],
      increments = 0\<rparr>"



section \<open>Strings\<close>

lemma Split_not_Nil: "Split s sep \<noteq> []"
  by (induction s) (auto split: list.splits)

lemma hd_Split: "hd (Split s sep) = takeWhile (\<lambda>c. c \<noteq> sep) s"
proof (induction s)
  case Nil
  show ?case by simp
next
  case (Cons c s)
  show ?case
  proof (cases "Split s sep")
    case Nil
    then show ?thesis using Split_not_Nil [of s sep] by simp
  next
    case (Cons item items)
    with Cons.IH show ?thesis by simp
  qed
qed

section \<open>The checkpoint path\<close>

text \<open>
  C5, as stated: distinct input file names have distinct checkpoint paths. It fails:
  the names \<open>a.csv\<close> and \<open>a.tsv\<close> share the checkpoint path \<open>a_progress.txt\<close>.
\<close>

theorem progressFileFor_collision:
  "''a.csv'' \<noteq> ''a.tsv'' \<and> progressFileFor ''a.csv'' = progressFileFor ''a.tsv''"
  by (simp add: progressFileFor_def)

text \<open>
  C5, amended: the checkpoint path is the part of the input file's name before its
  first dot, followed by \<open>_progress.txt\<close>; so two input names have the same checkpoint
  path exactly when they agree up to their first dot.
\<close>

theorem progressFileFor_prefix:
  "progressFileFor csvFile = takeWhile (\<lambda>c. c \<noteq> CHR ''.'') csvFile @ ''_progress.txt''
   \<and> (progressFileFor a = progressFileFor b
        \<longleftrightarrow> takeWhile (\<lambda>c. c \<noteq> CHR ''.'') a = takeWhile (\<lambda>c. c \<noteq> CHR ''.'') b)"
  by (simp add: progressFileFor_def progressFile0_def hd_Split)

section \<open>The list column\<close>

text \<open>
  C6: \<open>parseArrayFromColumn\<close> maps \<open>['a', 'b', 'c']\<close> to the sequence a, b, c and \<open>[]\<close>
  to the empty sequence. The code does neither. The quotes of an item are trimmed
  before its white space, so the opening quote of an item that follows a space stays;
  and the empty string splits into one empty item.
\<close>

theorem parseArrayFromColumn_keeps_quote:
  "parseArrayFromColumn ''['a', 'b', 'c']'' = [''a'', [CHR 0x27, CHR ''b''], [CHR 0x27, CHR ''c'']]
   \<and> parseArrayFromColumn ''[]'' = [[]]"
  by (simp add: parseArrayFromColumn_def Trim_def TrimSpace_def asciiSpace_def space2_def
      space3_def)

section \<open>The mapper\<close>

lemma place_of_record_long:
  assumes "15 \<le> length r"
  shows "\<exists>p. place_of_record pf r = Inr p"
proof -
  have "r \<noteq> []" using assms by auto
  with assms show ?thesis
    by (simp add: place_of_record_def index_def andThen_def)
qed

lemma place_of_record_short:
  assumes "length r < 15"
  shows "\<exists>i. length r \<le> i \<and> i < 15 \<and> place_of_record pf r = Inl (IndexOutOfRange i (length r))"
  using assms by (simp add: place_of_record_def index_def andThen_def)

lemma place_of_record_Inr:
  assumes "place_of_record pf r = Inr p"
  shows "15 \<le> length r"
proof (rule ccontr)
  assume "\<not> 15 \<le> length r"
  then have "length r < 15" by simp
  from place_of_record_short [OF this, of pf] assms show False by auto
qed

text \<open>
  C10: every entity that the mapper produces has the location type \<open>Point\<close>, the
  coordinates (parseFloat of column 10, parseFloat of column 9), longitude first, and
  its workflow fields at their defaults: not merged, no merge time, no suggestions and
  no reviews.
\<close>

theorem place_of_record_location:
  assumes "place_of_record pf r = Inr p"
  shows "Location p = Some \<lparr>Type = ''Point'',
                            Coordinates = (parseFloat pf (r ! 10), parseFloat pf (r ! 9))\<rparr>
         \<and> IsMerged p = False \<and> MergedAt p = None \<and> Suggestions p = [] \<and> Reviews p = []"
proof -
  have len: "15 \<le> length r" using assms by (rule place_of_record_Inr)
  then have "r \<noteq> []" by auto
  with assms len show ?thesis
    by (auto simp add: place_of_record_def index_def andThen_def)
qed

theorem place_of_record_location_witness:
  "place_of_record sampleParseFloat (sampleRow ''p1'' ''23.75'')
     = Inr \<lparr>PlaceID = ''p1'', Address = ''12 Lake Road'', Version = ''v1'',
            IsAutoCompleteAddress = True, Types = [''bank''], PlusCode = ''7JCP+2X'',
            City = ''Dhaka'', Division = ''Dhaka'', District = ''Dhaka'',
            PostalCode = ''1207'', Sublocality = ''Banani'', LocalArea = ''Block C'',
            Location = Some \<lparr>Type = ''Point'',
                             Coordinates = (0x4056A00000000000, 0x4037C00000000000)\<rparr>,
            Suggestions = [], Reviews = [], MergedAt = None, IsMerged = False\<rparr>
   \<and> Location \<lparr>PlaceID = ''p1'', Address = ''12 Lake Road'', Version = ''v1'',
            IsAutoCompleteAddress = True, Types = [''bank''], PlusCode = ''7JCP+2X'',
            City = ''Dhaka'', Division = ''Dhaka'', District = ''Dhaka'',
            PostalCode = ''1207'', Sublocality = ''Banani'', LocalArea = ''Block C'',
            Location = Some \<lparr>Type = ''Point'',
                             Coordinates = (0x4056A00000000000, 0x4037C00000000000)\<rparr>,
            Suggestions = [], Reviews = [], MergedAt = None, IsMerged = False\<rparr>
     = Some \<lparr>Type = ''Point'',
             Coordinates = (parseFloat sampleParseFloat (sampleRow ''p1'' ''23.75'' ! 10),
                            parseFloat sampleParseFloat (sampleRow ''p1'' ''23.75'' ! 9))\<rparr>"
proof -
  have m: "place_of_record sampleParseFloat (sampleRow ''p1'' ''23.75'')
     = Inr \<lparr>PlaceID = ''p1'', Address = ''12 Lake Road'', Version = ''v1'',
            IsAutoCompleteAddress = True, Types = [''bank''], PlusCode = ''7JCP+2X'',
            City = ''Dhaka'', Division = ''Dhaka'', District = ''Dhaka'',
            PostalCode = ''1207'', Sublocality = ''Banani'', LocalArea = ''Block C'',
            Location = Some \<lparr>Type = ''Point'',
                             Coordinates = (0x4056A00000000000, 0x4037C00000000000)\<rparr>,
            Suggestions = [], Reviews = [], MergedAt = None, IsMerged = False\<rparr>"
    by (simp add: place_of_record_def index_def andThen_def sampleRow_def sampleParseFloat_def
        parseFloat_def ToLower_def lowerByte_def parseArrayFromColumn_def Trim_def
        TrimSpace_def asciiSpace_def space2_def space3_def)
  from place_of_record_location [OF m] m show ?thesis by simp
qed

section \<open>A run over well-formed records\<close>


lemma update_fields [simp]:
  "calls (updateLastProcessedPlaceID e pf k w) = calls w"
  "writes (updateLastProcessedPlaceID e pf k w) = writes w @ [k]"
  "stdout (updateLastProcessedPlaceID e pf k w) = stdout w"
  "deferred (updateLastProcessedPlaceID e pf k w) = deferred w"
  "increments (updateLastProcessedPlaceID e pf k w) = increments w"
  by (simp_all add: updateLastProcessedPlaceID_def split: write_outcome.splits)

lemma iteration_mapped:
  assumes "place_of_record (ParseFloat e) r = Inr p"
  shows "iteration e pf k bs r True b w =
     (if bs \<le> Suc (length b) then
        (case InsertMany e (length (calls w)) (b @ [p]) of
           Some err \<Rightarrow> Inl (Error err, w\<lparr>calls := calls w @ [b @ [p]]\<rparr>)
         | None \<Rightarrow> Inr (True, [],
             (updateLastProcessedPlaceID e pf (PlaceID p) (w\<lparr>calls := calls w @ [b @ [p]]\<rparr>))
               \<lparr>increments := Suc (increments w)\<rparr>))
      else Inr (True, b @ [p], w\<lparr>increments := Suc (increments w)\<rparr>))"
  using assms by (simp add: iteration_def Let_def split: option.splits)

lemma iteration_short:
  assumes "place_of_record (ParseFloat e) r = Inl f"
  shows "iteration e pf k bs r True b w = Inl (f, w)"
  using assms by (simp add: iteration_def)

lemma steps_append:
  "steps e pf k bs (xs @ ys) sp b w =
     (case steps e pf k bs xs sp b w of
        Inl f \<Rightarrow> Inl f
      | Inr (sp', b', w') \<Rightarrow> steps e pf k bs ys sp' b' w')"
  by (induction xs arbitrary: sp b w) (auto split: sum.splits)

lemma steps_all_good:
  assumes "\<forall>r\<in>set rs. 15 \<le> length r" and "\<forall>n docs. InsertMany e n docs = None"
    and "length b < bs"
  shows "\<exists>b' w' new. steps e pf k bs rs True b w = Inr (True, b', w') \<and> length b' < bs
           \<and> calls w' = calls w @ new \<and> (\<forall>c\<in>set new. length c = bs)
           \<and> map Inr (concat new @ b') = map Inr b @ map (place_of_record (ParseFloat e)) rs
           \<and> length new * bs + length b' = length b + length rs"
  using assms
proof (induction rs arbitrary: b w)
  case Nil
  then show ?case by simp
next
  case (Cons r rs)
  from Cons.prems(1) have "15 \<le> length r" by simp
  then obtain p where p: "place_of_record (ParseFloat e) r = Inr p"
    using place_of_record_long by blast
  have rest: "\<forall>r\<in>set rs. 15 \<le> length r" using Cons.prems(1) by simp
  show ?case
  proof (cases "bs \<le> Suc (length b)")
    case True
    with Cons.prems(3) have full: "Suc (length b) = bs" by simp
    let ?w1 = "(updateLastProcessedPlaceID e pf (PlaceID p) (w\<lparr>calls := calls w @ [b @ [p]]\<rparr>))
               \<lparr>increments := Suc (increments w)\<rparr>"
    have it: "iteration e pf k bs r True b w = Inr (True, [], ?w1)"
      using True Cons.prems(2) by (simp add: iteration_mapped [OF p])
    have "length ([] :: Place list) < bs" using full by simp
    from Cons.IH [OF rest Cons.prems(2) this, of ?w1]
    obtain b' w' new where st: "steps e pf k bs rs True [] ?w1 = Inr (True, b', w')"
      and lb: "length b' < bs" and cw: "calls w' = calls ?w1 @ new"
      and sz: "\<forall>c\<in>set new. length c = bs"
      and ents: "map Inr (concat new @ b') = map Inr [] @ map (place_of_record (ParseFloat e)) rs"
      and cnt: "length new * bs + length b' = length ([] :: Place list) + length rs"
      by blast
    have "steps e pf k bs (r # rs) True b w = Inr (True, b', w')"
      using it st by simp
    moreover have "calls w' = calls w @ ((b @ [p]) # new)" using cw by simp
    moreover have "\<forall>c\<in>set ((b @ [p]) # new). length c = bs" using sz full by simp
    moreover have "map Inr (concat ((b @ [p]) # new) @ b')
        = map Inr b @ map (place_of_record (ParseFloat e)) (r # rs)"
      using ents p by simp
    moreover have "length ((b @ [p]) # new) * bs + length b' = length b + length (r # rs)"
      using cnt full by simp
    ultimately show ?thesis using lb by blast
  next
    case False
    have it: "iteration e pf k bs r True b w
        = Inr (True, b @ [p], w\<lparr>increments := Suc (increments w)\<rparr>)"
      using False by (simp add: iteration_mapped [OF p])
    have "length (b @ [p]) < bs" using False by simp
    from Cons.IH [OF rest Cons.prems(2) this, of "w\<lparr>increments := Suc (increments w)\<rparr>"]
    obtain b' w' new where
      st: "steps e pf k bs rs True (b @ [p]) (w\<lparr>increments := Suc (increments w)\<rparr>) = Inr (True, b', w')"
      and lb: "length b' < bs" and cw: "calls w' = calls w @ new"
      and sz: "\<forall>c\<in>set new. length c = bs"
      and ents: "map Inr (concat new @ b') = map Inr (b @ [p]) @ map (place_of_record (ParseFloat e)) rs"
      and cnt: "length new * bs + length b' = length (b @ [p]) + length rs"
      by auto
    have "steps e pf k bs (r # rs) True b w = Inr (True, b', w')"
      using it st by simp
    moreover have "map Inr (concat new @ b') = map Inr b @ map (place_of_record (ParseFloat e)) (r # rs)"
      using ents p by simp
    moreover have "length new * bs + length b' = length b + length (r # rs)"
      using cnt by simp
    ultimately show ?thesis using lb cw sz by blast
  qed
qed


lemma insertRemaining_ok:
  assumes "InsertMany e (length (calls w)) b = None"
  shows "fst (insertRemaining e pf b w) = None"
    and "calls (snd (insertRemaining e pf b w)) = calls w @ (if b = [] then [] else [b])"
  using assms by (simp_all add: insertRemaining_def Let_def)

lemma ceil_div_1000:
  assumes "q * 1000 + m = (n :: nat)" and "m < 1000"
  shows "q = n div 1000" and "m = n mod 1000"
    and "q + (if m = 0 then 0 else 1) = (n + 999) div 1000"
  using assms by auto



lemma readAll_all_good:
  assumes ins: "\<forall>n docs. InsertMany e n docs = None"
    and cols: "\<forall>r\<in>set rs. 15 \<le> length r"
    and none: "calls w = []"
  shows "\<exists>w'. readAll e pf k 1000 rs ''EOF'' True [] w = (None, w')
           \<and> map Inr (concat (calls w')) = map (place_of_record (ParseFloat e)) rs
           \<and> length (calls w') = (length rs + 999) div 1000
           \<and> (\<forall>i<length (calls w').
                 length (calls w' ! i) = (if i < length rs div 1000 then 1000 else length rs mod 1000))"
proof -
  have "length ([] :: Place list) < 1000" by simp
  from steps_all_good [OF cols ins this, of pf k w]
  obtain b' w' new where st: "steps e pf k 1000 rs True [] w = Inr (True, b', w')"
    and lb: "length b' < 1000" and cw: "calls w' = new"
    and sz: "\<forall>c\<in>set new. length c = 1000"
    and ents: "map Inr (concat new @ b') = map (place_of_record (ParseFloat e)) rs"
    and cnt: "length new * 1000 + length b' = length rs"
    using none by auto
  let ?w2 = "w'\<lparr>deferred := deferred w' @ [''> GOT EOF '']\<rparr>"
  let ?res = "insertRemaining e pf b' ?w2"
  have run: "readAll e pf k 1000 rs ''EOF'' True [] w = ?res"
    using st by (simp add: readAll_def)
  have ok: "InsertMany e (length (calls ?w2)) b' = None" using ins by simp
  have r1: "fst ?res = None" using insertRemaining_ok(1) [OF ok] .
  have r2: "calls (snd ?res) = new @ (if b' = [] then [] else [b'])"
    using insertRemaining_ok(2) [OF ok, of pf] cw by simp
  have q: "length new = length rs div 1000" and m: "length b' = length rs mod 1000"
    and c: "length new + (if length b' = 0 then 0 else 1) = (length rs + 999) div 1000"
    using ceil_div_1000 [OF cnt lb] by blast+
  have e1: "map Inr (concat (calls (snd ?res))) = map (place_of_record (ParseFloat e)) rs"
    using r2 ents by (cases "b' = []") simp_all
  have e2: "length (calls (snd ?res)) = (length rs + 999) div 1000"
    using r2 c by (cases "b' = []") simp_all
  have e3: "\<forall>i<length (calls (snd ?res)).
      length (calls (snd ?res) ! i) = (if i < length rs div 1000 then 1000 else length rs mod 1000)"
  proof (intro allI impI)
    fix i assume i: "i < length (calls (snd ?res))"
    show "length (calls (snd ?res) ! i) = (if i < length rs div 1000 then 1000 else length rs mod 1000)"
    proof (cases "i < length new")
      case True
      then have "calls (snd ?res) ! i = new ! i" using r2 by (simp add: nth_append)
      moreover have "new ! i \<in> set new" using True by simp
      ultimately show ?thesis using sz True q by simp
    next
      case False
      with i r2 have ne: "b' \<noteq> []" and "i = length new" by (auto split: if_splits)
      then have "calls (snd ?res) ! i = b'" using r2 by simp
      then show ?thesis using False q m by simp
    qed
  qed
  have "?res = (None, snd ?res)" using r1 by (simp add: prod_eq_iff)
  with run e1 e2 e3 show ?thesis by metis
qed

text \<open>
  C1, as stated: for every input file with N data rows, no prior checkpoint and every
  bulk insert succeeding, \<open>processCSV\<close> commits exactly N entities. It fails on a file
  whose rows lack a column that the mapper reads: with a header and one data row of one
  column each, the run panics at \<open>record[3]\<close>, the argument of \<open>strings.ToLower\<close>, and
  commits nothing.
\<close>

theorem processCSV_short_row_commits_nothing:
  "fst (processCSV (sampleEnv [[''place_id''], [''p1'']])
          ''places_progress.txt'' ''places.csv'' ''mongodb://localhost'' ''geo'' ''places''
          (sampleWorld Map.empty)) = Some (IndexOutOfRange 3 1)
   \<and> length (concat (calls (snd (processCSV (sampleEnv [[''place_id''], [''p1'']])
          ''places_progress.txt'' ''places.csv'' ''mongodb://localhost'' ''geo'' ''places''
          (sampleWorld Map.empty))))) \<noteq> length [[''p1'']]"
  by (simp add: processCSV_def sampleEnv_def sampleWorld_def getLastProcessedPlaceID_def
      readAll_def iteration_def place_of_record_def index_def andThen_def)

text \<open>
  C1, amended: for every run that connects to the store, opens the input file and reads
  it to its end, every record read having the field count of the header, with N data
  rows that each have the 15 columns the mapper reads, no prior checkpoint and every
  bulk insert succeeding, \<open>processCSV\<close> returns without error and has committed exactly
  the N entities of the rows, in the order of the rows, in \<open>\<lceil>N / 1000\<rceil>\<close> \<open>InsertMany\<close>
  calls: the first \<open>N div 1000\<close> of 1000 entities each and, when \<open>N mod 1000\<close> is not
  zero, a last one of \<open>N mod 1000\<close>.
\<close>

theorem processCSV_commits_all:
  assumes conn: "Connect e mongoURI = None"
    and opn: "Open e csvFile = Inr (header # rs, ''EOF'')"
    and fresh: "getLastProcessedPlaceID e progressFile w = Inr []"
    and ins: "\<forall>n docs. InsertMany e n docs = None"
    and cols: "\<forall>r\<in>set rs. 15 \<le> length r"
    and none: "calls w = []"
  shows "\<exists>w'. processCSV e progressFile csvFile mongoURI dbName collectionName w = (None, w')
           \<and> map Inr (concat (calls w')) = map (place_of_record (ParseFloat e)) rs
           \<and> length (calls w') = (length rs + 999) div 1000
           \<and> (\<forall>i<length (calls w').
                 length (calls w' ! i) = (if i < length rs div 1000 then 1000 else length rs mod 1000))"
proof -
  let ?w1 = "w\<lparr>stdout := stdout w @ [''Header: ['' @ joinSpace header @ '']'']\<rparr>"
  have "calls ?w1 = []" using none by simp
  from readAll_all_good [OF ins cols this, of progressFile "[]"]
  show ?thesis using conn opn fresh by (simp add: processCSV_def)
qed

theorem processCSV_commits_all_witness:
  "fst (processCSV (sampleEnv [sampleHeader, sampleRow ''p1'' ''23.75'', sampleRow ''p2'' ''n/a''])
          ''places_progress.txt'' ''places.csv'' ''mongodb://localhost'' ''geo'' ''places''
          (sampleWorld Map.empty)) = None
   \<and> map PlaceID (concat (calls (snd (processCSV
          (sampleEnv [sampleHeader, sampleRow ''p1'' ''23.75'', sampleRow ''p2'' ''n/a''])
          ''places_progress.txt'' ''places.csv'' ''mongodb://localhost'' ''geo'' ''places''
          (sampleWorld Map.empty))))) = [''p1'', ''p2'']
   \<and> length (calls (snd (processCSV
          (sampleEnv [sampleHeader, sampleRow ''p1'' ''23.75'', sampleRow ''p2'' ''n/a''])
          ''places_progress.txt'' ''places.csv'' ''mongodb://localhost'' ''geo'' ''places''
          (sampleWorld Map.empty)))) = 1"
proof -
  let ?e = "sampleEnv [sampleHeader, sampleRow ''p1'' ''23.75'', sampleRow ''p2'' ''n/a'']"
  let ?rs = "[sampleRow ''p1'' ''23.75'', sampleRow ''p2'' ''n/a'']"
  have h1: "Connect ?e ''mongodb://localhost'' = None" by (simp add: sampleEnv_def)
  have h2: "Open ?e ''places.csv'' = Inr (sampleHeader # ?rs, ''EOF'')" by (simp add: sampleEnv_def)
  have h3: "getLastProcessedPlaceID ?e ''places_progress.txt'' (sampleWorld Map.empty) = Inr []"
    by (simp add: getLastProcessedPlaceID_def sampleWorld_def)
  have h4: "\<forall>n docs. InsertMany ?e n docs = None" by (simp add: sampleEnv_def)
  have h5: "\<forall>r\<in>set ?rs. 15 \<le> length r" by (simp add: sampleRow_def)
  have h6: "calls (sampleWorld Map.empty) = []" by (simp add: sampleWorld_def)
  from processCSV_commits_all [OF h1 h2 h3 h4 h5 h6, of "''geo''" "''places''"]
  obtain w' where run: "processCSV ?e ''places_progress.txt'' ''places.csv'' ''mongodb://localhost''
        ''geo'' ''places'' (sampleWorld Map.empty) = (None, w')"
    and ents: "map Inr (concat (calls w')) = map (place_of_record (ParseFloat ?e)) ?rs"
    and n: "length (calls w') = (length ?rs + 999) div 1000"
    by blast
  have "map (map_sum id PlaceID) (map Inr (concat (calls w')))
      = map (map_sum id PlaceID) (map (place_of_record (ParseFloat ?e)) ?rs)"
    using ents by simp
  then have "map Inr (map PlaceID (concat (calls w'))) = [Inr ''p1'', Inr ''p2'' :: failure + string]"
    by (simp add: place_of_record_def index_def andThen_def sampleRow_def comp_def)
  then have "map PlaceID (concat (calls w')) = [''p1'', ''p2'']"
    by (simp add: map_eq_Cons_conv)
  with run n show ?thesis by simp
qed

section \<open>The resume filter\<close>

lemma iteration_suppressed:
  assumes "r \<noteq> []"
  shows "iteration e pf k bs r False b w = Inr (index r 0 = Inr k, b, w)"
  using assms by (auto simp add: iteration_def index_def andThen_def split: bool.splits)




lemma steps_suppressed:
  assumes "[] \<notin> set rs"
  shows "steps e pf k bs rs False b w =
     (case dropWhile (\<lambda>r. index r 0 \<noteq> Inr k) rs of
        [] \<Rightarrow> Inr (False, b, w)
      | m # after \<Rightarrow> steps e pf k bs after True b w)"
  using assms
proof (induction rs)
  case Nil
  show ?case by simp
next
  case (Cons r rs)
  then have "r \<noteq> []" and "[] \<notin> set rs" by auto
  with Cons.IH show ?case by (simp add: iteration_suppressed)
qed








section \<open>Short records\<close>

text \<open>
  C8: a data record that reaches the mapper with fewer than the 15 columns it reads
  ends the run with an index-out-of-range panic and a non-zero exit code. The record
  \<open>r\<close> reaches the mapper when the passes over the records before it end without
  failure and with \<open>startProcessing\<close> set. Then \<open>main\<close> exits with code 2 and the panic
  on standard error; the world is the one the earlier records left, so \<open>r\<close> is neither
  skipped nor counted, and whatever records follow it are not processed.
\<close>

theorem short_record_is_fatal:
  assumes "LoadDotenv e = None"
    and "Getenv e ''CSV_FILE'' = csvFile" and "csvFile \<noteq> []"
    and "Getenv e ''MONGO_URI'' = mongoURI" and "mongoURI \<noteq> []"
    and "Getenv e ''DB_NAME'' \<noteq> []" and "Getenv e ''COLLECTION_NAME'' \<noteq> []"
    and "Connect e mongoURI = None"
    and "Open e csvFile = Inr (header # before @ r # after, readErr)"
    and "getLastProcessedPlaceID e (progressFileFor csvFile) w = Inr lastProcessedID"
    and "steps e (progressFileFor csvFile) lastProcessedID 1000 before (lastProcessedID = []) []
           (w\<lparr>stdout := stdout w @ [''Header: ['' @ joinSpace header @ '']'']\<rparr>)
         = Inr (True, batch, w')"
    and "length r < 15"
  shows "\<exists>i. length r \<le> i \<and> i < 15 \<and>
           main e w = (2, w'\<lparr>stderr := stderr w' @
                          [''panic: runtime error: index out of range ['' @ Itoa i
                           @ ''] with length '' @ Itoa (length r)]\<rparr>)"
proof -
  from place_of_record_short [OF assms(12), of "ParseFloat e"]
  obtain i where i: "length r \<le> i" "i < 15"
    and p: "place_of_record (ParseFloat e) r = Inl (IndexOutOfRange i (length r))"
    by blast
  have "steps e (progressFileFor csvFile) lastProcessedID 1000 (before @ r # after)
          (lastProcessedID = []) []
          (w\<lparr>stdout := stdout w @ [''Header: ['' @ joinSpace header @ '']'']\<rparr>)
        = Inl (IndexOutOfRange i (length r), w')"
    using assms(11) iteration_short [OF p] by (simp add: steps_append)
  then have "processCSV e (progressFileFor csvFile) csvFile mongoURI (Getenv e ''DB_NAME'')
        (Getenv e ''COLLECTION_NAME'') w = (Some (IndexOutOfRange i (length r)), w')"
    using assms(8,9,10) by (simp add: processCSV_def readAll_def)
  then have "main e w = (2, w'\<lparr>stderr := stderr w' @
                          [''panic: runtime error: index out of range ['' @ Itoa i
                           @ ''] with length '' @ Itoa (length r)]\<rparr>)"
    using assms(1-7) by (simp add: main_def Let_def)
  with i show ?thesis by blast
qed

theorem short_record_is_fatal_witness:
  "fst (main (sampleEnv [[''place_id'', ''types''], [''p1'', ''[]''], [''p2'', ''[]''], [''p3'', ''[]'']])
            (sampleWorld [''places_progress.txt'' \<mapsto> ''p1''])) = 2
   \<and> calls (snd (main (sampleEnv [[''place_id'', ''types''], [''p1'', ''[]''], [''p2'', ''[]''], [''p3'', ''[]'']])
            (sampleWorld [''places_progress.txt'' \<mapsto> ''p1'']))) = []"
proof -
  let ?e = "sampleEnv [[''place_id'', ''types''], [''p1'', ''[]''], [''p2'', ''[]''], [''p3'', ''[]'']]"
  let ?w = "sampleWorld [''places_progress.txt'' \<mapsto> ''p1'']"
  let ?w1 = "?w\<lparr>stdout := stdout ?w @ [''Header: ['' @ joinSpace [''place_id'', ''types''] @ '']'']\<rparr>"
  have h1: "LoadDotenv ?e = None" by (simp add: sampleEnv_def)
  have h2: "Getenv ?e ''CSV_FILE'' = ''places.csv''" by (simp add: sampleEnv_def)
  have h3: "''places.csv'' \<noteq> []" by simp
  have h4: "Getenv ?e ''MONGO_URI'' = ''mongodb://localhost''" by (simp add: sampleEnv_def)
  have h5: "''mongodb://localhost'' \<noteq> []" by simp
  have h6: "Getenv ?e ''DB_NAME'' \<noteq> []" by (simp add: sampleEnv_def)
  have h7: "Getenv ?e ''COLLECTION_NAME'' \<noteq> []" by (simp add: sampleEnv_def)
  have h8: "Connect ?e ''mongodb://localhost'' = None" by (simp add: sampleEnv_def)
  have h9: "Open ?e ''places.csv''
      = Inr ([''place_id'', ''types''] # [[''p1'', ''[]'']] @ [''p2'', ''[]''] # [[''p3'', ''[]'']], ''EOF'')"
    by (simp add: sampleEnv_def)
  have pf: "progressFileFor ''places.csv'' = ''places_progress.txt''"
    by (simp add: progressFileFor_def progressFile0_def)
  have h10: "getLastProcessedPlaceID ?e (progressFileFor ''places.csv'') ?w = Inr ''p1''"
    by (simp add: pf getLastProcessedPlaceID_def sampleWorld_def sampleEnv_def TrimSpace_def
        asciiSpace_def space2_def space3_def)
  have h11: "steps ?e (progressFileFor ''places.csv'') ''p1'' 1000 [[''p1'', ''[]'']] (''p1'' = []) [] ?w1
      = Inr (True, [], ?w1)"
    by (simp add: iteration_def index_def andThen_def)
  have h12: "length [''p2'', ''[]''] < 15" by simp
  from short_record_is_fatal [OF h1 h2 h3 h4 h5 h6 h7 h8 h9 h10 h11 h12]
  show ?thesis by (auto simp add: sampleWorld_def)
qed

section \<open>A checkpoint that matches no record\<close>

text \<open>
  C4, as stated: a run whose checkpoint matches no record commits nothing, emits a
  warning that the checkpoint was never matched, and exits with code 0. The code has no
  such warning: with the checkpoint \<open>p9\<close> and the records \<open>p1\<close> and \<open>p2\<close> the run makes
  no \<open>InsertMany\<close> call and exits with code 0, the program logs nothing, and what it
  prints is the echo of the header and the message of success.
\<close>

theorem stale_checkpoint_no_warning:
  "fst (main (sampleEnv [sampleHeader, sampleRow ''p1'' ''23.75'', sampleRow ''p2'' ''n/a''])
            (sampleWorld [''places_progress.txt'' \<mapsto> ''p9''])) = 0
   \<and> calls (snd (main (sampleEnv [sampleHeader, sampleRow ''p1'' ''23.75'', sampleRow ''p2'' ''n/a''])
            (sampleWorld [''places_progress.txt'' \<mapsto> ''p9'']))) = []
   \<and> stderr (snd (main (sampleEnv [sampleHeader, sampleRow ''p1'' ''23.75'', sampleRow ''p2'' ''n/a''])
            (sampleWorld [''places_progress.txt'' \<mapsto> ''p9'']))) = []
   \<and> stdout (snd (main (sampleEnv [sampleHeader, sampleRow ''p1'' ''23.75'', sampleRow ''p2'' ''n/a''])
            (sampleWorld [''places_progress.txt'' \<mapsto> ''p9''])))
       = [''Header: [place_id types address is_autocomplete country city division district plus_code lat lng postal_code version sublocality local_area]'',
          ''CSV data inserted successfully!'']"
  by (simp add: main_def Let_def sampleEnv_def sampleWorld_def progressFileFor_def
      progressFile0_def processCSV_def getLastProcessedPlaceID_def TrimSpace_def asciiSpace_def
      space2_def space3_def readAll_def iteration_def index_def andThen_def sampleRow_def sampleHeader_def
      insertRemaining_def)

text \<open>
  C4, amended: a run that reads its input to the end, and whose checkpoint key is not
  empty and equals column 0 of no record of the input, makes no \<open>InsertMany\<close> call,
  emits no warning about the unmatched checkpoint, and exits with code 0. All that the
  program writes is the echo of the header, the message of success and, from its
  goroutine, the line that reports the end of the file; the files and the inserted
  documents are as they were and nothing is logged.
\<close>

theorem stale_checkpoint_is_silent:
  assumes "LoadDotenv e = None"
    and "Getenv e ''CSV_FILE'' = csvFile" and "csvFile \<noteq> []"
    and "Getenv e ''MONGO_URI'' = mongoURI" and "mongoURI \<noteq> []"
    and "Getenv e ''DB_NAME'' \<noteq> []" and "Getenv e ''COLLECTION_NAME'' \<noteq> []"
    and "Connect e mongoURI = None"
    and "Open e csvFile = Inr (header # rs, ''EOF'')"
    and "getLastProcessedPlaceID e (progressFileFor csvFile) w = Inr lastProcessedID"
    and "lastProcessedID \<noteq> []"
    and "\<forall>r\<in>set rs. r \<noteq> [] \<and> r ! 0 \<noteq> lastProcessedID"
  shows "main e w =
     (0, w\<lparr>stdout := stdout w @ [''Header: ['' @ joinSpace header @ '']'',
                                  ''CSV data inserted successfully!''],
           deferred := deferred w @ [''> GOT EOF '']\<rparr>)"
proof -
  let ?w1 = "w\<lparr>stdout := stdout w @ [''Header: ['' @ joinSpace header @ '']'']\<rparr>"
  have ne: "[] \<notin> set rs" using assms(12) by auto
  have "\<forall>r\<in>set rs. index r 0 \<noteq> Inr lastProcessedID"
    using assms(12) by (auto simp add: index_def)
  then have dw: "dropWhile (\<lambda>r. index r 0 \<noteq> Inr lastProcessedID) rs = []" by simp
  have st: "steps e (progressFileFor csvFile) lastProcessedID 1000 rs False [] ?w1
            = Inr (False, [], ?w1)"
    by (simp only: steps_suppressed [OF ne] dw list.case)
  have "readAll e (progressFileFor csvFile) lastProcessedID 1000 rs ''EOF'' False [] ?w1
      = (None, ?w1\<lparr>deferred := deferred ?w1 @ [''> GOT EOF '']\<rparr>)"
    unfolding readAll_def st by (simp add: insertRemaining_def)
  moreover have "processCSV e (progressFileFor csvFile) csvFile mongoURI (Getenv e ''DB_NAME'')
        (Getenv e ''COLLECTION_NAME'') w
      = readAll e (progressFileFor csvFile) lastProcessedID 1000 rs ''EOF'' False [] ?w1"
    using assms(8,9,10,11) by (simp add: processCSV_def)
  ultimately have "processCSV e (progressFileFor csvFile) csvFile mongoURI (Getenv e ''DB_NAME'')
        (Getenv e ''COLLECTION_NAME'') w
      = (None, ?w1\<lparr>deferred := deferred ?w1 @ [''> GOT EOF '']\<rparr>)"
    by simp
  then show ?thesis
    using assms(1-7) by (simp add: main_def Let_def)
qed

theorem stale_checkpoint_is_silent_witness:
  "main (sampleEnv [sampleHeader, sampleRow ''p1'' ''23.75''])
        (sampleWorld [''places_progress.txt'' \<mapsto> ''p7''])
     = (0, \<lparr>files = [''places_progress.txt'' \<mapsto> ''p7''], calls = [], writes = [],
            stdout = [''Header: ['' @ joinSpace sampleHeader @ '']'',
                      ''CSV data inserted successfully!''],
            stderr = [], deferred = [''> GOT EOF ''], increments = 0\<rparr>)"
proof -
  let ?e = "sampleEnv [sampleHeader, sampleRow ''p1'' ''23.75'']"
  let ?w = "sampleWorld [''places_progress.txt'' \<mapsto> ''p7'']"
  have h1: "LoadDotenv ?e = None" by (simp add: sampleEnv_def)
  have h2: "Getenv ?e ''CSV_FILE'' = ''places.csv''" by (simp add: sampleEnv_def)
  have h3: "''places.csv'' \<noteq> []" by simp
  have h4: "Getenv ?e ''MONGO_URI'' = ''mongodb://localhost''" by (simp add: sampleEnv_def)
  have h5: "''mongodb://localhost'' \<noteq> []" by simp
  have h6: "Getenv ?e ''DB_NAME'' \<noteq> []" by (simp add: sampleEnv_def)
  have h7: "Getenv ?e ''COLLECTION_NAME'' \<noteq> []" by (simp add: sampleEnv_def)
  have h8: "Connect ?e ''mongodb://localhost'' = None" by (simp add: sampleEnv_def)
  have h9: "Open ?e ''places.csv'' = Inr (sampleHeader # [sampleRow ''p1'' ''23.75''], ''EOF'')"
    by (simp add: sampleEnv_def)
  have pf: "progressFileFor ''places.csv'' = ''places_progress.txt''"
    by (simp add: progressFileFor_def progressFile0_def)
  have h10: "getLastProcessedPlaceID ?e (progressFileFor ''places.csv'') ?w = Inr ''p7''"
    by (simp add: pf getLastProcessedPlaceID_def sampleWorld_def sampleEnv_def TrimSpace_def
        asciiSpace_def space2_def space3_def)
  have h11: "''p7'' \<noteq> []" by simp
  have h12: "\<forall>r\<in>set [sampleRow ''p1'' ''23.75'']. r \<noteq> [] \<and> r ! 0 \<noteq> ''p7''"
    by (simp add: sampleRow_def)
  from stale_checkpoint_is_silent [OF h1 h2 h3 h4 h5 h6 h7 h8 h9 h10 h11 h12]
  show ?thesis by (simp add: sampleWorld_def)
qed

section \<open>Coordinates that do not parse\<close>

text \<open>
  C7: \<open>parseFloat\<close> returns the value that \<open>strconv.ParseFloat\<close> parsed when it reports
  no error, and exactly 0.0 when it reports one, whatever value comes with the error;
  a record with coordinate text that does not parse is still mapped and committed. For
  a record with the mapper's 15 columns the mapper produces an entity whatever
  \<open>strconv.ParseFloat\<close> says, with 0.0 for each coordinate that did not parse. And a run
  without a prior checkpoint that reads its input to the end, over records with the 15
  columns and with every bulk insert succeeding, returns without error and has handed
  to \<open>InsertMany\<close> one entity for every record, the i-th with the coordinates of the
  i-th record, 0.0 where the text did not parse.
\<close>

theorem parseFloat_falls_back_to_zero:
  "(snd (strconvParseFloat val) = None
      \<longrightarrow> parseFloat strconvParseFloat val = fst (strconvParseFloat val))
   \<and> (snd (strconvParseFloat val) \<noteq> None \<longrightarrow> parseFloat strconvParseFloat val = 0)
   \<and> (15 \<le> length r \<longrightarrow>
        (\<exists>p. place_of_record (ParseFloat e) r = Inr p
           \<and> Location p = Some \<lparr>Type = ''Point'',
                Coordinates =
                  (if snd (ParseFloat e (r ! 10)) = None then fst (ParseFloat e (r ! 10)) else 0,
                   if snd (ParseFloat e (r ! 9)) = None then fst (ParseFloat e (r ! 9)) else 0)\<rparr>))
   \<and> (Connect e mongoURI = None \<and> Open e csvFile = Inr (header # rs, ''EOF'')
        \<and> getLastProcessedPlaceID e progressFile w = Inr []
        \<and> (\<forall>n docs. InsertMany e n docs = None) \<and> (\<forall>r\<in>set rs. 15 \<le> length r)
        \<and> calls w = [] \<longrightarrow>
          fst (processCSV e progressFile csvFile mongoURI dbName collectionName w) = None
          \<and> length (concat (calls (snd (processCSV e progressFile csvFile mongoURI dbName
                 collectionName w)))) = length rs
          \<and> (\<forall>i<length rs.
                Location (concat (calls (snd (processCSV e progressFile csvFile mongoURI dbName
                    collectionName w))) ! i)
                  = Some \<lparr>Type = ''Point'',
                      Coordinates =
                        (if snd (ParseFloat e (rs ! i ! 10)) = None
                         then fst (ParseFloat e (rs ! i ! 10)) else 0,
                         if snd (ParseFloat e (rs ! i ! 9)) = None
                         then fst (ParseFloat e (rs ! i ! 9)) else 0)\<rparr>))"
proof -
  have pf: "parseFloat f v = (if snd (f v) = None then fst (f v) else 0)" for f v
    by (cases "f v") (auto simp add: parseFloat_def)
  have loc: "Location p = Some \<lparr>Type = ''Point'',
                Coordinates =
                  (if snd (ParseFloat e (r ! 10)) = None then fst (ParseFloat e (r ! 10)) else 0,
                   if snd (ParseFloat e (r ! 9)) = None then fst (ParseFloat e (r ! 9)) else 0)\<rparr>"
    if "place_of_record (ParseFloat e) r = Inr p" for r p
  proof -
    from that have "15 \<le> length r" by (rule place_of_record_Inr)
    then have "r \<noteq> []" by auto
    with that \<open>15 \<le> length r\<close> show ?thesis
      by (auto simp add: place_of_record_def index_def andThen_def pf)
  qed
  have 1: "snd (strconvParseFloat val) = None
      \<longrightarrow> parseFloat strconvParseFloat val = fst (strconvParseFloat val)"
    by (simp add: pf)
  have 2: "snd (strconvParseFloat val) \<noteq> None \<longrightarrow> parseFloat strconvParseFloat val = 0"
    by (simp add: pf)
  have 3: "15 \<le> length r \<longrightarrow>
        (\<exists>p. place_of_record (ParseFloat e) r = Inr p
           \<and> Location p = Some \<lparr>Type = ''Point'',
                Coordinates =
                  (if snd (ParseFloat e (r ! 10)) = None then fst (ParseFloat e (r ! 10)) else 0,
                   if snd (ParseFloat e (r ! 9)) = None then fst (ParseFloat e (r ! 9)) else 0)\<rparr>)"
    using place_of_record_long [of r "ParseFloat e"] loc by blast
  have 4: "fst (processCSV e progressFile csvFile mongoURI dbName collectionName w) = None
          \<and> length (concat (calls (snd (processCSV e progressFile csvFile mongoURI dbName
                 collectionName w)))) = length rs
          \<and> (\<forall>i<length rs.
                Location (concat (calls (snd (processCSV e progressFile csvFile mongoURI dbName
                    collectionName w))) ! i)
                  = Some \<lparr>Type = ''Point'',
                      Coordinates =
                        (if snd (ParseFloat e (rs ! i ! 10)) = None
                         then fst (ParseFloat e (rs ! i ! 10)) else 0,
                         if snd (ParseFloat e (rs ! i ! 9)) = None
                         then fst (ParseFloat e (rs ! i ! 9)) else 0)\<rparr>)"
    if h: "Connect e mongoURI = None \<and> Open e csvFile = Inr (header # rs, ''EOF'')
        \<and> getLastProcessedPlaceID e progressFile w = Inr []
        \<and> (\<forall>n docs. InsertMany e n docs = None) \<and> (\<forall>r\<in>set rs. 15 \<le> length r)
        \<and> calls w = []"
  proof -
    let ?w1 = "w\<lparr>stdout := stdout w @ [''Header: ['' @ joinSpace header @ '']'']\<rparr>"
    let ?run = "processCSV e progressFile csvFile mongoURI dbName collectionName w"
    from h have ins: "\<forall>n docs. InsertMany e n docs = None"
      and cols: "\<forall>r\<in>set rs. 15 \<le> length r" and c: "calls ?w1 = []" by simp_all
    have "?run = readAll e progressFile [] 1000 rs ''EOF'' True [] ?w1"
      using h by (simp add: processCSV_def)
    with readAll_all_good [OF ins cols c, where pf = progressFile and k = "[]"]
    have ok: "fst ?run = None"
      and ents: "map Inr (concat (calls (snd ?run))) = map (place_of_record (ParseFloat e)) rs"
      by auto
    from ents have len: "length (concat (calls (snd ?run))) = length rs"
      by (metis length_map)
    have "Location (concat (calls (snd ?run)) ! i)
                  = Some \<lparr>Type = ''Point'',
                      Coordinates =
                        (if snd (ParseFloat e (rs ! i ! 10)) = None
                         then fst (ParseFloat e (rs ! i ! 10)) else 0,
                         if snd (ParseFloat e (rs ! i ! 9)) = None
                         then fst (ParseFloat e (rs ! i ! 9)) else 0)\<rparr>"
      if i: "i < length rs" for i
    proof -
      have "map Inr (concat (calls (snd ?run))) ! i = map (place_of_record (ParseFloat e)) rs ! i"
        using ents by simp
      then have "place_of_record (ParseFloat e) (rs ! i) = Inr (concat (calls (snd ?run)) ! i)"
        using i len by simp
      then show ?thesis by (rule loc)
    qed
    with ok len show ?thesis by blast
  qed
  from 1 2 3 4 show ?thesis by blast
qed

theorem parseFloat_falls_back_to_zero_witness:
  "snd (sampleParseFloat ''n/a'') \<noteq> None
   \<and> parseFloat sampleParseFloat ''n/a'' = 0
   \<and> parseFloat sampleParseFloat ''1e400'' = 0
   \<and> parseFloat sampleParseFloat ''23.75'' = 0x4037C00000000000
   \<and> fst (processCSV (sampleEnv [sampleHeader, sampleRow ''p1'' ''23.75'', sampleRow ''p2'' ''n/a''])
          ''places_progress.txt'' ''places.csv'' ''mongodb://localhost'' ''geo'' ''places''
          (sampleWorld Map.empty)) = None
   \<and> length (concat (calls (snd (processCSV
          (sampleEnv [sampleHeader, sampleRow ''p1'' ''23.75'', sampleRow ''p2'' ''n/a''])
          ''places_progress.txt'' ''places.csv'' ''mongodb://localhost'' ''geo'' ''places''
          (sampleWorld Map.empty))))) = 2
   \<and> Location (concat (calls (snd (processCSV
          (sampleEnv [sampleHeader, sampleRow ''p1'' ''23.75'', sampleRow ''p2'' ''n/a''])
          ''places_progress.txt'' ''places.csv'' ''mongodb://localhost'' ''geo'' ''places''
          (sampleWorld Map.empty)))) ! 1)
       = Some \<lparr>Type = ''Point'', Coordinates = (0x4056A00000000000, 0)\<rparr>"
proof -
  let ?rs = "[sampleRow ''p1'' ''23.75'', sampleRow ''p2'' ''n/a'']"
  let ?e = "sampleEnv (sampleHeader # ?rs)"
  let ?w = "sampleWorld Map.empty"
  have a: "snd (sampleParseFloat ''n/a'') \<noteq> None" by (simp add: sampleParseFloat_def)
  have a': "snd (sampleParseFloat ''1e400'') \<noteq> None" by (simp add: sampleParseFloat_def)
  have b: "snd (sampleParseFloat ''23.75'') = None" by (simp add: sampleParseFloat_def)
  have h: "Connect ?e ''mongodb://localhost'' = None
      \<and> Open ?e ''places.csv'' = Inr (sampleHeader # ?rs, ''EOF'')
      \<and> getLastProcessedPlaceID ?e ''places_progress.txt'' ?w = Inr []
      \<and> (\<forall>n docs. InsertMany ?e n docs = None) \<and> (\<forall>r\<in>set ?rs. 15 \<le> length r)
      \<and> calls ?w = []"
    by (simp add: sampleEnv_def getLastProcessedPlaceID_def sampleWorld_def sampleRow_def)
  have pfe: "ParseFloat ?e = sampleParseFloat" by (simp add: sampleEnv_def)
  from parseFloat_falls_back_to_zero [where strconvParseFloat = sampleParseFloat
      and val = "''n/a''" and e = ?e and rs = ?rs and w = ?w and header = sampleHeader
      and mongoURI = "''mongodb://localhost''" and csvFile = "''places.csv''"
      and progressFile = "''places_progress.txt''" and dbName = "''geo''"
      and collectionName = "''places''"] a h
  have z: "parseFloat sampleParseFloat ''n/a'' = 0"
    and ok: "fst (processCSV ?e ''places_progress.txt'' ''places.csv'' ''mongodb://localhost''
        ''geo'' ''places'' ?w) = None"
    and len: "length (concat (calls (snd (processCSV ?e ''places_progress.txt'' ''places.csv''
        ''mongodb://localhost'' ''geo'' ''places'' ?w)))) = length ?rs"
    and loc: "\<forall>i<length ?rs. Location (concat (calls (snd (processCSV ?e ''places_progress.txt''
        ''places.csv'' ''mongodb://localhost'' ''geo'' ''places'' ?w))) ! i)
          = Some \<lparr>Type = ''Point'',
              Coordinates =
                (if snd (ParseFloat ?e (?rs ! i ! 10)) = None
                 then fst (ParseFloat ?e (?rs ! i ! 10)) else 0,
                 if snd (ParseFloat ?e (?rs ! i ! 9)) = None
                 then fst (ParseFloat ?e (?rs ! i ! 9)) else 0)\<rparr>"
    by blast+
  from loc have "Location (concat (calls (snd (processCSV ?e ''places_progress.txt''
        ''places.csv'' ''mongodb://localhost'' ''geo'' ''places'' ?w))) ! 1)
          = Some \<lparr>Type = ''Point'',
              Coordinates =
                (if snd (ParseFloat ?e (?rs ! 1 ! 10)) = None
                 then fst (ParseFloat ?e (?rs ! 1 ! 10)) else 0,
                 if snd (ParseFloat ?e (?rs ! 1 ! 9)) = None
                 then fst (ParseFloat ?e (?rs ! 1 ! 9)) else 0)\<rparr>"
    by simp
  moreover have "?rs ! 1 ! 10 = ''90.5''" and "?rs ! 1 ! 9 = ''n/a''"
    by (simp_all add: sampleRow_def)
  moreover have "snd (sampleParseFloat ''90.5'') = None"
    and "fst (sampleParseFloat ''90.5'') = 0x4056A00000000000"
    by (simp_all add: sampleParseFloat_def)
  ultimately have l1: "Location (concat (calls (snd (processCSV ?e ''places_progress.txt''
        ''places.csv'' ''mongodb://localhost'' ''geo'' ''places'' ?w))) ! 1)
          = Some \<lparr>Type = ''Point'', Coordinates = (0x4056A00000000000, 0)\<rparr>"
    using a by (simp only: pfe if_True if_False) simp
  from parseFloat_falls_back_to_zero [where strconvParseFloat = sampleParseFloat
      and val = "''1e400''"] a'
  have z': "parseFloat sampleParseFloat ''1e400'' = 0" by blast
  from parseFloat_falls_back_to_zero [where strconvParseFloat = sampleParseFloat
      and val = "''23.75''"] b
  have v: "parseFloat sampleParseFloat ''23.75'' = 0x4037C00000000000"
    by (simp add: sampleParseFloat_def)
  from a z z' v ok len l1 show ?thesis by simp
qed

section \<open>A checkpoint that cannot be written\<close>

lemma observable_update [simp]:
  "observable (updateLastProcessedPlaceID e pf k w)
     = (calls w, writes w @ [k], stdout w, deferred w, increments w)"
  by (simp add: observable_def)









section \<open>A bulk insert that fails\<close>

lemma checkpointed_other_fields [simp]:
  "checkpointed e pf start (w\<lparr>increments := n\<rparr>) = checkpointed e pf start w"
  "checkpointed e pf start (w\<lparr>deferred := d\<rparr>) = checkpointed e pf start w"
  "checkpointed e pf start (w\<lparr>stdout := out\<rparr>) = checkpointed e pf start w"
  by (simp_all add: checkpointed_def)














end
